theory Spec2Isabelle
  imports Main
begin

section \<open>Plain JavaScript values\<close>

text \<open>
  The plain side of the entity codec handles values of TypeScript type \<open>any\<close>. The
  model keeps the shapes the conversion functions distinguish with \<open>typeof\<close>:
  \<open>undefined\<close>, \<open>null\<close>, booleans, numbers, strings, arrays and other objects. An
  object is an ordinary one, with \<open>Object.prototype\<close> as its prototype: the list of its
  own enumerable properties in enumeration order, each holding a value of the model
  (so never a function). Numbers are the integer-valued numbers of the safe range, as
  mathematical integers: fractions, \<open>NaN\<close> and the infinities are outside the model.
\<close>

datatype js =
    JUndefined
  | JNull
  | JBool bool
  | JNum int
  | JStr string
  | JArr "js list"
  | JObj "(string \<times> js) list"

text \<open>
  The exceptions of the module: the two \<open>Error\<close>s that \<open>plainToSubstrate\<close> throws
  itself; the \<open>TypeError\<close> of the runtime for a property access or a method call on
  a value that has none, and for a conversion to a string of a value that has none; and
  the failed assertion of \<open>BN.toNumber\<close>.
\<close>

datatype error =
    UnsupportedBoolean js
  | UnknownPropertyTypeName string
  | TypeError
  | BNAssertion

subsection \<open>String forms\<close>

text \<open>
  \<open>Number.prototype.toString\<close> on an integer: its decimal digits, with a minus sign
  for a negative one.
\<close>

fun digits :: "nat \<Rightarrow> string" where
  "digits n =
     (if n < 10 then [''0123456789'' ! n]
      else digits (n div 10) @ [''0123456789'' ! (n mod 10)])"

declare digits.simps [simp del]

definition Number_toString :: "int \<Rightarrow> string" where
  "Number_toString n = (if n < 0 then CHR ''-'' # digits (nat (- n)) else digits (nat n))"

text \<open>
  \<open>String.prototype.toLowerCase\<close>, on the letters A to Z. Every other character is
  kept; none of the letters of \<open>true\<close> and \<open>yes\<close> is the lower case of a character
  outside A to Z, so membership in the list of true words is decided exactly.
\<close>

definition lowerChar :: "char \<Rightarrow> char" where
  "lowerChar c =
     (case map_of (zip ''ABCDEFGHIJKLMNOPQRSTUVWXYZ'' ''abcdefghijklmnopqrstuvwxyz'') c of
        Some d \<Rightarrow> d
      | None \<Rightarrow> c)"

definition toLowerCase :: "string \<Rightarrow> string" where
  "toLowerCase s = map lowerChar s"

text \<open>
  The conversion of a value to a string, as the operator \<open>+\<close> with a string and a
  template literal perform it. An array is joined with commas, \<open>undefined\<close> and \<open>null\<close>
  elements giving the empty string. An object is converted by its \<open>toString\<close> and
  \<open>valueOf\<close> methods: the inherited \<open>valueOf\<close> returns the object itself, which is no
  primitive, and the inherited \<open>toString\<close> gives \<open>[object Object]\<close>; an own property
  \<open>toString\<close> hides the inherited method and, holding no function, leaves the object
  with no conversion, which is a \<open>TypeError\<close>.
\<close>

fun ToString :: "js \<Rightarrow> error + string"
  and join :: "js list \<Rightarrow> error + string" where
  "ToString JUndefined = Inr ''undefined''"
| "ToString JNull = Inr ''null''"
| "ToString (JBool b) = Inr (if b then ''true'' else ''false'')"
| "ToString (JNum n) = Inr (Number_toString n)"
| "ToString (JStr s) = Inr s"
| "ToString (JArr ys) = join ys"
| "ToString (JObj kvs) =
     (case map_of kvs ''toString'' of
        None \<Rightarrow> Inr ''[object Object]''
      | Some f \<Rightarrow> Inl TypeError)"
| "join [] = Inr []"
| "join (y # ys) =
     (case (if y = JUndefined \<or> y = JNull then Inr [] else ToString y) of
        Inl e \<Rightarrow> Inl e
      | Inr s \<Rightarrow>
          if ys = [] then Inr s
          else (case join ys of
                  Inl e \<Rightarrow> Inl e
                | Inr t \<Rightarrow> Inr (s @ '','' @ t)))"

section \<open>Typed property values\<close>

text \<open>
  Modelled from the spec: the classes of \<open>./PropertyValue\<close> (\<open>PV.None\<close>, \<open>PV.Bool\<close>,
  \<open>PV.Uint16\<close>, ..., \<open>PV.InternalVec\<close> and the enum \<open>PropertyValue\<close>) are not among the
  sources. The spec describes a tagged union over the fixed set of type names, one
  variant per name, where the scalar variants and the vectors other than the boolean one
  wrap the input value directly, with no validation, the boolean variant wraps a
  boolean and the boolean vector wraps booleans. The none variant is constructed with
  no argument.
\<close>

datatype PropertyValueEnum =
    PV_None
  | PV_Bool bool
  | PV_Uint16 js
  | PV_Uint32 js
  | PV_Uint64 js
  | PV_Int16 js
  | PV_Int32 js
  | PV_Int64 js
  | PV_Text js
  | PV_Internal js
  | PV_BoolVec "bool list"
  | PV_Uint16Vec js
  | PV_Uint32Vec js
  | PV_Uint64Vec js
  | PV_Int16Vec js
  | PV_Int32Vec js
  | PV_Int64Vec js
  | PV_TextVec js
  | PV_InternalVec js

text \<open>
  \<open>new PropertyValue({ [propType]: typeEnum })\<close>: the variant's name and the wrapped
  value.
\<close>

record PropertyValue =
  variant :: string
  typeEnum :: PropertyValueEnum

section \<open>Encoding a plain value\<close>

definition ok :: "string \<Rightarrow> PropertyValueEnum \<Rightarrow> PropertyValue" where
  "ok propType e = \<lparr>variant = propType, typeEnum = e\<rparr>"

text \<open>
  \<open>valueAsBool\<close> is a closure of \<open>plainToSubstrate\<close> with no parameter: it reads the
  captured variable \<open>value\<close> and, for a string or a number, assigns the lower-cased
  string form back to it. The model passes the variable in and returns it with the
  result. In the last branch the message of the \<open>Error\<close> is built first, by
  \<open>'...' + value\<close>: when the value has no conversion to a string, the \<open>TypeError\<close> of
  the conversion is what is thrown.
\<close>

definition valueAsBool :: "js \<Rightarrow> error + (bool \<times> js)" where
  "valueAsBool v =
     (case v of
        JStr s \<Rightarrow>
          (let v' = toLowerCase s
           in Inr (v' \<in> set [''true'', ''yes'', ''1''], JStr v'))
      | JNum n \<Rightarrow>
          (let v' = toLowerCase (Number_toString n)
           in Inr (v' \<in> set [''true'', ''yes'', ''1''], JStr v'))
      | JBool b \<Rightarrow> Inr (b, v)
      | _ \<Rightarrow>
          (case ToString v of
             Inl e \<Rightarrow> Inl e
           | Inr message \<Rightarrow> Inl (UnsupportedBoolean v)))"

text \<open>
  \<open>(value as []).map(valueAsBool)\<close>: \<open>map\<close> calls the closure once per element of the
  array. The closure ignores the element it is passed and reads the captured variable,
  which is the array itself. The first failing call ends the loop with its exception.
\<close>

fun mapValueAsBool :: "js list \<Rightarrow> js \<Rightarrow> error + (bool list \<times> js)" where
  "mapValueAsBool [] v = Inr ([], v)"
| "mapValueAsBool (y # ys) v =
     (case valueAsBool v of
        Inl e \<Rightarrow> Inl e
      | Inr (b, v') \<Rightarrow>
          (case mapValueAsBool ys v' of
             Inl e \<Rightarrow> Inl e
           | Inr (bs, v'') \<Rightarrow> Inr (b # bs, v'')))"

text \<open>
  Only an array has a \<open>map\<close> method among the modelled values: on every other value the
  call is a \<open>TypeError\<close>.
\<close>

definition valueAsBoolArr :: "js \<Rightarrow> error + (bool list \<times> js)" where
  "valueAsBoolArr v =
     (case v of
        JArr ys \<Rightarrow> mapValueAsBool ys v
      | _ \<Rightarrow> Inl TypeError)"

definition plainToSubstrate :: "string \<Rightarrow> js \<Rightarrow> error + PropertyValue" where
  "plainToSubstrate propType v =
     (if propType = ''None'' then Inr (ok propType PV_None)
      else if propType = ''Bool'' then
        (case valueAsBool v of
           Inl e \<Rightarrow> Inl e
         | Inr (b, _) \<Rightarrow> Inr (ok propType (PV_Bool b)))
      else if propType = ''Uint16'' then Inr (ok propType (PV_Uint16 v))
      else if propType = ''Uint32'' then Inr (ok propType (PV_Uint32 v))
      else if propType = ''Uint64'' then Inr (ok propType (PV_Uint64 v))
      else if propType = ''Int16'' then Inr (ok propType (PV_Int16 v))
      else if propType = ''Int32'' then Inr (ok propType (PV_Int32 v))
      else if propType = ''Int64'' then Inr (ok propType (PV_Int64 v))
      else if propType = ''Text'' then Inr (ok propType (PV_Text v))
      else if propType = ''Internal'' then Inr (ok propType (PV_Internal v))
      else if propType = ''BoolVec'' then
        (case valueAsBoolArr v of
           Inl e \<Rightarrow> Inl e
         | Inr (bs, _) \<Rightarrow> Inr (ok propType (PV_BoolVec bs)))
      else if propType = ''Uint16Vec'' then Inr (ok propType (PV_Uint16Vec v))
      else if propType = ''Uint32Vec'' then Inr (ok propType (PV_Uint32Vec v))
      else if propType = ''Uint64Vec'' then Inr (ok propType (PV_Uint64Vec v))
      else if propType = ''Int16Vec'' then Inr (ok propType (PV_Int16Vec v))
      else if propType = ''Int32Vec'' then Inr (ok propType (PV_Int32Vec v))
      else if propType = ''Int64Vec'' then Inr (ok propType (PV_Int64Vec v))
      else if propType = ''TextVec'' then Inr (ok propType (PV_TextVec v))
      else if propType = ''InternalVec'' then Inr (ok propType (PV_InternalVec v))
      else Inl (UnknownPropertyTypeName propType))"

section \<open>Decoding a codec value\<close>

text \<open>
  \<open>substrateToPlain\<close> tells its argument apart by class (\<open>instanceof\<close> \<open>Text\<close>, \<open>BN\<close>,
  \<open>bool\<close>, \<open>Vec\<close>) and by the test written \<open>typeof x !== undefined && x !== null\<close>. A
  runtime value is therefore one of: a text with its string, a big number with its
  integer (the unsigned and signed integer codecs extend \<open>BN\<close>), a boolean, a vector of
  values, an object of any other class with its string form, \<open>null\<close>, or \<open>undefined\<close>.
\<close>

datatype codec =
    CText string
  | CBN int
  | CBool bool
  | CVec "codec list"
  | COther string
  | CNull
  | CUndefined

text \<open>
  \<open>BN.toNumber\<close> is the library's (bn.js): it returns the number when the big number
  needs at most 53 bits, and otherwise fails its assertion
  (\<open>Number can only safely store up to 53 bits\<close>).
\<close>

definition safe :: "int \<Rightarrow> bool" where
  "safe n = (- 9007199254740992 < n \<and> n < 9007199254740992)"

definition BN_toNumber :: "int \<Rightarrow> error + int" where
  "BN_toNumber n = (if safe n then Inr n else Inl BNAssertion)"

fun mapToNumber :: "int list \<Rightarrow> error + int list" where
  "mapToNumber [] = Inr []"
| "mapToNumber (x # xs) =
     (case BN_toNumber x of
        Inl e \<Rightarrow> Inl e
      | Inr n \<Rightarrow>
          (case mapToNumber xs of
             Inl e \<Rightarrow> Inl e
           | Inr ns \<Rightarrow> Inr (n # ns)))"

text \<open>
  \<open>typeof x\<close> is a string, so \<open>typeof x !== undefined\<close> holds for every \<open>x\<close>, and the
  last branch is taken by everything that is not \<open>null\<close>: for \<open>undefined\<close> the call
  \<open>x.toString()\<close> is a \<open>TypeError\<close>. For \<open>null\<close> the result stays \<open>undefined\<close>. An
  exception in the callback of \<open>x.map\<close> ends the conversion of the vector.
\<close>

fun substrateToPlain :: "codec \<Rightarrow> error + js"
  and substrateToPlainList :: "codec list \<Rightarrow> error + js list" where
  "substrateToPlain (CText s) = Inr (JStr s)"
| "substrateToPlain (CBN n) =
     (case BN_toNumber n of
        Inl e \<Rightarrow> Inl e
      | Inr m \<Rightarrow> Inr (JNum m))"
| "substrateToPlain (CBool b) = Inr (JBool b)"
| "substrateToPlain (CVec ys) =
     (case substrateToPlainList ys of
        Inl e \<Rightarrow> Inl e
      | Inr ps \<Rightarrow> Inr (JArr ps))"
| "substrateToPlain (COther s) = Inr (JStr s)"
| "substrateToPlain CNull = Inr JUndefined"
| "substrateToPlain CUndefined = Inl TypeError"
| "substrateToPlainList [] = Inr []"
| "substrateToPlainList (y # ys) =
     (case substrateToPlain y of
        Inl e \<Rightarrow> Inl e
      | Inr p \<Rightarrow>
          (case substrateToPlainList ys of
             Inl e \<Rightarrow> Inl e
           | Inr ps \<Rightarrow> Inr (p # ps)))"

section \<open>The entity codec\<close>

text \<open>
  The classes \<open>Class\<close>, \<open>Entity\<close> and \<open>ClassPropertyValue\<close> are declared outside the
  sources at hand; the records below hold the fields that the codec reads or writes.

  A property of a class schema, with the string forms the constructor reads:
  \<open>p.name.toString()\<close> and \<open>p.prop_type.type.toString()\<close>.
\<close>

record Property =
  name :: string
  prop_type :: string

record Class =
  properties :: "Property list"

record PropMeta =
  index :: nat
  type :: string

text \<open>
  A property value inside an entity or an update. In an entity read from the chain the
  decoder looks at \<open>v.value.value\<close>, the codec value inside the enum; in an update the
  value is the \<open>PropertyValue\<close> that \<open>plainToSubstrate\<close> made. The index is a \<open>u16\<close>,
  at most 65535, where \<open>toNumber\<close> is exact: the field holds the number. The class
  identifier and the entity identifier are 64-bit.
\<close>

record 'v ClassPropertyValue =
  in_class_index :: nat
  "value" :: 'v

record Entity =
  class_id :: int
  in_class_schema_indexes :: "int list"
  id' :: int
  entity_values :: "codec ClassPropertyValue list"

text \<open>A plain entity is an object: its keys and their values.\<close>

type_synonym PlainEntity = "string \<rightharpoonup> js"

record EntityCodec =
  propNameToMetaMap :: "string \<rightharpoonup> PropMeta"
  propIndexToNameMap :: "nat \<rightharpoonup> string"

text \<open>
  \<open>camelCase\<close> is lodash's and not part of the repository: the canonicalization is a
  parameter of the model.
\<close>

definition propNameToJsFieldStyle :: "(string \<Rightarrow> string) \<Rightarrow> string \<Rightarrow> string" where
  "propNameToJsFieldStyle camelCase humanFriendlyPropName = camelCase humanFriendlyPropName"

text \<open>
  The constructor walks the properties with their positions and sets both maps; a later
  \<open>set\<close> with the same key replaces the earlier entry.
\<close>

fun constructorLoop ::
  "(string \<Rightarrow> string) \<Rightarrow> Property list \<Rightarrow> nat \<Rightarrow> EntityCodec \<Rightarrow> EntityCodec" where
  "constructorLoop camelCase [] i this = this"
| "constructorLoop camelCase (p # ps) i this =
     (let propName = propNameToJsFieldStyle camelCase (name p);
          propMeta = \<lparr>index = i, type = prop_type p\<rparr>
      in constructorLoop camelCase ps (Suc i)
           (this\<lparr>propNameToMetaMap := (propNameToMetaMap this)(propName \<mapsto> propMeta),
                 propIndexToNameMap := (propIndexToNameMap this)(i \<mapsto> propName)\<rparr>))"

definition newEntityCodec :: "(string \<Rightarrow> string) \<Rightarrow> Class \<Rightarrow> EntityCodec" where
  "newEntityCodec camelCase entityClass =
     constructorLoop camelCase (properties entityClass) 0
       \<lparr>propNameToMetaMap = Map.empty, propIndexToNameMap = Map.empty\<rparr>"

text \<open>
  Every method takes the instance and returns it with its result, so that a write to
  one of the two maps would show in the returned instance.
\<close>

definition inClassIndexOfProp :: "EntityCodec \<Rightarrow> string \<Rightarrow> nat option \<times> EntityCodec" where
  "inClassIndexOfProp this propName =
     (case propNameToMetaMap this propName of
        None \<Rightarrow> (None, this)
      | Some meta \<Rightarrow> (Some (index meta), this))"

text \<open>
  The loop over \<open>entity.entity_values\<close>. The guard \<open>if (propName)\<close> is false for a
  missing entry and for the empty string.
\<close>

fun forEachValue ::
  "EntityCodec \<Rightarrow> codec ClassPropertyValue list \<Rightarrow> PlainEntity \<Rightarrow> error + PlainEntity" where
  "forEachValue this [] res = Inr res"
| "forEachValue this (v # vs) res =
     (let propIdx = in_class_index v
      in case propIndexToNameMap this propIdx of
           None \<Rightarrow> forEachValue this vs res
         | Some propName \<Rightarrow>
             if propName \<noteq> [] then
               (case substrateToPlain (value v) of
                  Inl e \<Rightarrow> Inl e
                | Inr p \<Rightarrow> forEachValue this vs (res(propName \<mapsto> p)))
             else forEachValue this vs res)"

text \<open>
  The three metadata fields are converted with \<open>toNumber\<close>, in the order of the object
  literal; a failed conversion ends the call.
\<close>

definition toPlainObject :: "EntityCodec \<Rightarrow> Entity \<Rightarrow> (error + PlainEntity) \<times> EntityCodec" where
  "toPlainObject this entity =
     (case BN_toNumber (class_id entity) of
        Inl e \<Rightarrow> (Inl e, this)
      | Inr classId \<Rightarrow>
          (case mapToNumber (in_class_schema_indexes entity) of
             Inl e \<Rightarrow> (Inl e, this)
           | Inr inClassSchemaIndexes \<Rightarrow>
               (case BN_toNumber (id' entity) of
                  Inl e \<Rightarrow> (Inl e, this)
                | Inr entityId \<Rightarrow>
                    (let res = [''classId'' \<mapsto> JNum classId,
                                ''inClassSchemaIndexes'' \<mapsto> JArr (map JNum inClassSchemaIndexes),
                                ''id'' \<mapsto> JNum entityId]
                     in (forEachValue this (entity_values entity) res, this)))))"

text \<open>
  \<open>toPlainObjects\<close> maps \<open>toPlainObject\<close> over the entities; the filter
  \<open>typeof e !== undefined\<close> keeps every element, \<open>typeof e\<close> being a string.
\<close>

fun toPlainObjects ::
  "EntityCodec \<Rightarrow> Entity list \<Rightarrow> (error + PlainEntity list) \<times> EntityCodec" where
  "toPlainObjects this [] = (Inr [], this)"
| "toPlainObjects this (e # es) =
     (case toPlainObject this e of
        (Inl err, this') \<Rightarrow> (Inl err, this')
      | (Inr r, this') \<Rightarrow>
          (case toPlainObjects this' es of
             (Inl err, this'') \<Rightarrow> (Inl err, this'')
           | (Inr rs, this'') \<Rightarrow> (Inr (r # rs), this'')))"

text \<open>
  An update is an object: its own enumerable properties in the order of \<open>Object.keys\<close>.
  Reading a property gives \<open>undefined\<close> when the object has none of that name.
\<close>

definition Object_keys :: "(string \<times> js) list \<Rightarrow> string list" where
  "Object_keys obj = map fst obj"

definition getProp :: "(string \<times> js) list \<Rightarrow> string \<Rightarrow> js" where
  "getProp obj k = (case map_of obj k of None \<Rightarrow> JUndefined | Some v \<Rightarrow> v)"

text \<open>
  The state of \<open>toSubstrateUpdate\<close>'s loop: the vector under construction and the lines
  written with \<open>console.error\<close>, each with the string form of the plain value and the
  exception caught.
\<close>

record Update =
  res :: "PropertyValue ClassPropertyValue list"
  console :: "(string \<times> error) list"

text \<open>
  The \<open>try\<close> holds the call of \<open>plainToSubstrate\<close> only. The \<open>catch\<close> builds the line
  to log with a template literal that converts the plain value to a string; an
  exception of that conversion is inside no \<open>try\<close> and ends the whole call.
\<close>

fun updateLoop ::
  "EntityCodec \<Rightarrow> (string \<times> js) list \<Rightarrow> string list \<Rightarrow> Update \<Rightarrow> error + Update" where
  "updateLoop this updatedProps [] st = Inr st"
| "updateLoop this updatedProps (propName # ks) st =
     (case propNameToMetaMap this propName of
        None \<Rightarrow> updateLoop this updatedProps ks st
      | Some meta \<Rightarrow>
          (let propType = type meta;
               plainValue = getProp updatedProps propName
           in case plainToSubstrate propType plainValue of
                Inl err \<Rightarrow>
                  (case ToString plainValue of
                     Inl e \<Rightarrow> Inl e
                   | Inr s \<Rightarrow>
                       updateLoop this updatedProps ks
                         (st\<lparr>console := console st @ [(s, err)]\<rparr>))
              | Inr codecValue \<Rightarrow>
                  updateLoop this updatedProps ks
                    (st\<lparr>res := res st @
                       [\<lparr>in_class_index = index meta, value = codecValue\<rparr>]\<rparr>)))"

definition toSubstrateUpdate ::
  "EntityCodec \<Rightarrow> (string \<times> js) list \<Rightarrow> (error + Update) \<times> EntityCodec" where
  "toSubstrateUpdate this updatedProps =
     (updateLoop this updatedProps (Object_keys updatedProps) \<lparr>res = [], console = []\<rparr>, this)"

section \<open>The raw representation of a typed value\<close>

text \<open>
  A number given as a numeric string: an optional minus sign and decimal digits.
\<close>

definition digitValue :: "char \<Rightarrow> nat option" where
  "digitValue c = map_of (zip ''0123456789'' [0, 1, 2, 3, 4, 5, 6, 7, 8, 9]) c"

fun parseDigits :: "string \<Rightarrow> nat \<Rightarrow> nat option" where
  "parseDigits [] acc = Some acc"
| "parseDigits (c # cs) acc =
     (case digitValue c of
        None \<Rightarrow> None
      | Some d \<Rightarrow> parseDigits cs (10 * acc + d))"

definition parseDecimal :: "string \<Rightarrow> int option" where
  "parseDecimal s =
     (case s of
        [] \<Rightarrow> None
      | c # cs \<Rightarrow>
          if c = CHR ''-'' then
            (if cs = [] then None else map_option (\<lambda>n. - int n) (parseDigits cs 0))
          else map_option int (parseDigits s 0))"

definition numericValue :: "js \<Rightarrow> int option" where
  "numericValue v =
     (case v of
        JNum n \<Rightarrow> Some n
      | JStr s \<Rightarrow> parseDecimal s
      | _ \<Rightarrow> None)"

definition numericVec :: "js \<Rightarrow> codec option" where
  "numericVec v =
     (case v of
        JArr ys \<Rightarrow> map_option CVec (those (map (\<lambda>y. map_option CBN (numericValue y)) ys))
      | _ \<Rightarrow> None)"

definition textOf :: "(string \<Rightarrow> codec) \<Rightarrow> js \<Rightarrow> codec option" where
  "textOf mk v = (case v of JStr s \<Rightarrow> Some (mk s) | _ \<Rightarrow> None)"

definition textVec :: "(string \<Rightarrow> codec) \<Rightarrow> js \<Rightarrow> codec option" where
  "textVec mk v =
     (case v of
        JArr ys \<Rightarrow> map_option CVec (those (map (textOf mk) ys))
      | _ \<Rightarrow> None)"

text \<open>
  Modelled from the spec: the runtime representation of each variant, which the classes
  of \<open>./PropertyValue\<close> fix and the sources do not show. By the spec, the boolean
  variant has the boolean representation; the integer variants have the numeric
  (big-integer-like) one and accept a number or a numeric string, with no range check;
  the text variant has the textual one; an internal reference is represented as an
  identifier string, the string form of its object; the none variant is the empty one,
  an object of none of the four classes with an empty string form; a vector variant
  is the sequence of its elements. A payload of another shape is given no
  representation: the spec leaves it to the underlying codec.
\<close>

fun rawOf :: "PropertyValueEnum \<Rightarrow> codec option" where
  "rawOf PV_None = Some (COther [])"
| "rawOf (PV_Bool b) = Some (CBool b)"
| "rawOf (PV_Uint16 v) = map_option CBN (numericValue v)"
| "rawOf (PV_Uint32 v) = map_option CBN (numericValue v)"
| "rawOf (PV_Uint64 v) = map_option CBN (numericValue v)"
| "rawOf (PV_Int16 v) = map_option CBN (numericValue v)"
| "rawOf (PV_Int32 v) = map_option CBN (numericValue v)"
| "rawOf (PV_Int64 v) = map_option CBN (numericValue v)"
| "rawOf (PV_Text v) = textOf CText v"
| "rawOf (PV_Internal v) = textOf COther v"
| "rawOf (PV_BoolVec bs) = Some (CVec (map CBool bs))"
| "rawOf (PV_Uint16Vec v) = numericVec v"
| "rawOf (PV_Uint32Vec v) = numericVec v"
| "rawOf (PV_Uint64Vec v) = numericVec v"
| "rawOf (PV_Int16Vec v) = numericVec v"
| "rawOf (PV_Int32Vec v) = numericVec v"
| "rawOf (PV_Int64Vec v) = numericVec v"
| "rawOf (PV_TextVec v) = textVec CText v"
| "rawOf (PV_InternalVec v) = textVec COther v"

text \<open>
  Encoding a plain value with a type name, then decoding the raw representation of the
  typed value. The result is \<open>None\<close> when the typed value has no representation.
\<close>

definition roundTrip :: "string \<Rightarrow> js \<Rightarrow> (error + js) option" where
  "roundTrip T v =
     (case plainToSubstrate T v of
        Inl e \<Rightarrow> Some (Inl e)
      | Inr pv \<Rightarrow> map_option substrateToPlain (rawOf (typeEnum pv)))"

text \<open>
  The integer type names with their ranges, cut to the safe range of a number
  (up to \<open>2^53 - 1\<close> in absolute value) for the 64-bit ones.
\<close>

definition integerRange :: "string \<Rightarrow> (int \<times> int) option" where
  "integerRange T =
     map_of
       [(''Uint16'', (0, 65535)),
        (''Uint32'', (0, 4294967295)),
        (''Uint64'', (0, 9007199254740991)),
        (''Int16'', (- 32768, 32767)),
        (''Int32'', (- 2147483648, 2147483647)),
        (''Int64'', (- 9007199254740991, 9007199254740991))] T"

text \<open>
  The representative plain values of a scalar type with an equality: a boolean for
  \<open>Bool\<close>, a number or numeric string in range for an integer type, a string for
  \<open>Text\<close> and \<open>Internal\<close>.
\<close>

definition isBool :: "js \<Rightarrow> bool" where
  "isBool v = (case v of JBool _ \<Rightarrow> True | _ \<Rightarrow> False)"

definition isStr :: "js \<Rightarrow> bool" where
  "isStr v = (case v of JStr _ \<Rightarrow> True | _ \<Rightarrow> False)"

definition inRange :: "int \<times> int \<Rightarrow> js \<Rightarrow> bool" where
  "inRange r v = (case numericValue v of None \<Rightarrow> False | Some n \<Rightarrow> fst r \<le> n \<and> n \<le> snd r)"

definition representative :: "string \<Rightarrow> js \<Rightarrow> bool" where
  "representative T v =
     (if T = ''Bool'' then isBool v
      else if T = ''Text'' \<or> T = ''Internal'' then isStr v
      else (case integerRange T of None \<Rightarrow> False | Some r \<Rightarrow> inRange r v))"

text \<open>
  The equality of each of these types: the same boolean, the same string, or, for
  an integer type, the same number.
\<close>

definition plainEq :: "string \<Rightarrow> js \<Rightarrow> js \<Rightarrow> bool" where
  "plainEq T w v =
     (if T = ''Bool'' then isBool w \<and> w = v
      else if T = ''Text'' \<or> T = ''Internal'' then isStr w \<and> w = v
      else (case numericValue w of None \<Rightarrow> False | Some n \<Rightarrow> numericValue v = Some n))"

section \<open>Registration of the permission types\<close>

text \<open>
  \<open>getTypeRegistry().register\<close> is polkadot's: the call is a parameter of the model, a
  function on the registry that returns the registry it leaves behind and the exception
  it threw, if any. The result of \<open>registerVersionedStorePermissionsTypes\<close> is the
  exception that reaches its caller, if any, the registry, and the lines written with
  \<open>console.error\<close>.
\<close>

definition registerVersionedStorePermissionsTypes ::
  "('r \<Rightarrow> 'e option \<times> 'r) \<Rightarrow> 'r \<Rightarrow> 'e list \<Rightarrow> 'e option \<times> 'r \<times> 'e list" where
  "registerVersionedStorePermissionsTypes register registry logged =
     (case register registry of
        (None, registry') \<Rightarrow> (None, registry', logged)
      | (Some err, registry') \<Rightarrow> (None, registry', logged @ [err]))"

section \<open>Notions of the specification\<close>

text \<open>The fixed set of property type names.\<close>

definition typeNames :: "string list" where
  "typeNames =
     [''None'', ''Bool'', ''Uint16'', ''Uint32'', ''Uint64'', ''Int16'', ''Int32'', ''Int64'',
      ''Text'', ''Internal'', ''BoolVec'', ''Uint16Vec'', ''Uint32Vec'', ''Uint64Vec'',
      ''Int16Vec'', ''Int32Vec'', ''Int64Vec'', ''TextVec'', ''InternalVec'']"






text \<open>
  A codec value is decodable when it is not \<open>undefined\<close>, a big number in it needs at
  most 53 bits and, for a vector, each of its elements is decodable. An entity is
  decodable when its three metadata fields need at most 53 bits and each of its values
  is decodable.
\<close>

fun decodable :: "codec \<Rightarrow> bool"
  and decodableList :: "codec list \<Rightarrow> bool" where
  "decodable (CVec ys) = decodableList ys"
| "decodable CUndefined = False"
| "decodable (CBN n) = safe n"
| "decodable (CText s) = True"
| "decodable (CBool b) = True"
| "decodable (COther s) = True"
| "decodable CNull = True"
| "decodableList [] = True"
| "decodableList (y # ys) = (decodable y \<and> decodableList ys)"

text \<open>
  What the specification says a codec value decodes to: a text to its string, a big
  number to its number, a boolean to itself, a vector to the array of its decoded
  elements, any other object to its string form, and a \<open>null\<close> or absent value to
  \<open>undefined\<close>.
\<close>

fun plainOf :: "codec \<Rightarrow> js"
  and plainOfList :: "codec list \<Rightarrow> js list" where
  "plainOf (CText s) = JStr s"
| "plainOf (CBN n) = JNum n"
| "plainOf (CBool b) = JBool b"
| "plainOf (CVec ys) = JArr (plainOfList ys)"
| "plainOf (COther s) = JStr s"
| "plainOf CNull = JUndefined"
| "plainOf CUndefined = JUndefined"
| "plainOfList [] = []"
| "plainOfList (y # ys) = plainOf y # plainOfList ys"

definition decodableMeta :: "Entity \<Rightarrow> bool" where
  "decodableMeta e =
     (safe (class_id e) \<and> list_all safe (in_class_schema_indexes e) \<and> safe (id' e))"

definition decodableEntity :: "Entity \<Rightarrow> bool" where
  "decodableEntity e =
     (decodableMeta e \<and> list_all (\<lambda>q. decodable (value q)) (entity_values e))"

section \<open>Properties of the encoder\<close>


lemma Number_toString_table: "Number_toString 1 = ''1''" "Number_toString 0 = ''0''"
  by (simp_all add: Number_toString_def digits.simps)

text \<open>
  On an array or an object \<open>valueAsBool\<close> raises: the unsupported-boolean error when
  the value has a string form, and the \<open>TypeError\<close> of the conversion when it has none.
\<close>

lemma valueAsBool_array:
  "valueAsBool (JArr ys) =
     Inl (case ToString (JArr ys) of Inl e \<Rightarrow> e | Inr s \<Rightarrow> UnsupportedBoolean (JArr ys))"
  by (simp add: valueAsBool_def split: sum.splits)

lemma valueAsBool_object:
  "valueAsBool (JObj kvs) =
     Inl (case ToString (JObj kvs) of Inl e \<Rightarrow> e | Inr s \<Rightarrow> UnsupportedBoolean (JObj kvs))"
  by (simp add: valueAsBool_def split: sum.splits option.splits)

lemma plainToSubstrate_Bool:
  "plainToSubstrate ''Bool'' v =
     (case valueAsBool v of
        Inl e \<Rightarrow> Inl e
      | Inr (b, w) \<Rightarrow> Inr \<lparr>variant = ''Bool'', typeEnum = PV_Bool b\<rparr>)"
  by (simp add: plainToSubstrate_def ok_def split: sum.splits prod.splits)

lemma plainToSubstrate_BoolVec:
  "plainToSubstrate ''BoolVec'' v =
     (case valueAsBoolArr v of
        Inl e \<Rightarrow> Inl e
      | Inr (bs, w) \<Rightarrow> Inr \<lparr>variant = ''BoolVec'', typeEnum = PV_BoolVec bs\<rparr>)"
  by (simp add: plainToSubstrate_def ok_def split: sum.splits prod.splits)

text \<open>The scalar types other than the boolean one wrap the input as it is.\<close>

lemma plainToSubstrate_scalars:
  "plainToSubstrate ''None'' v = Inr (ok ''None'' PV_None)"
  "plainToSubstrate ''Uint16'' v = Inr (ok ''Uint16'' (PV_Uint16 v))"
  "plainToSubstrate ''Uint32'' v = Inr (ok ''Uint32'' (PV_Uint32 v))"
  "plainToSubstrate ''Uint64'' v = Inr (ok ''Uint64'' (PV_Uint64 v))"
  "plainToSubstrate ''Int16'' v = Inr (ok ''Int16'' (PV_Int16 v))"
  "plainToSubstrate ''Int32'' v = Inr (ok ''Int32'' (PV_Int32 v))"
  "plainToSubstrate ''Int64'' v = Inr (ok ''Int64'' (PV_Int64 v))"
  "plainToSubstrate ''Text'' v = Inr (ok ''Text'' (PV_Text v))"
  "plainToSubstrate ''Internal'' v = Inr (ok ''Internal'' (PV_Internal v))"
  by (simp_all add: plainToSubstrate_def)

text \<open>
  The vector types other than the boolean one wrap the input as it is, whatever it is.
\<close>

lemma other_vectors_pass_through:
  "plainToSubstrate ''Uint16Vec'' v = Inr \<lparr>variant = ''Uint16Vec'', typeEnum = PV_Uint16Vec v\<rparr>
   \<and> plainToSubstrate ''Uint32Vec'' v = Inr \<lparr>variant = ''Uint32Vec'', typeEnum = PV_Uint32Vec v\<rparr>
   \<and> plainToSubstrate ''Uint64Vec'' v = Inr \<lparr>variant = ''Uint64Vec'', typeEnum = PV_Uint64Vec v\<rparr>
   \<and> plainToSubstrate ''Int16Vec'' v = Inr \<lparr>variant = ''Int16Vec'', typeEnum = PV_Int16Vec v\<rparr>
   \<and> plainToSubstrate ''Int32Vec'' v = Inr \<lparr>variant = ''Int32Vec'', typeEnum = PV_Int32Vec v\<rparr>
   \<and> plainToSubstrate ''Int64Vec'' v = Inr \<lparr>variant = ''Int64Vec'', typeEnum = PV_Int64Vec v\<rparr>
   \<and> plainToSubstrate ''TextVec'' v = Inr \<lparr>variant = ''TextVec'', typeEnum = PV_TextVec v\<rparr>
   \<and> plainToSubstrate ''InternalVec'' v =
       Inr \<lparr>variant = ''InternalVec'', typeEnum = PV_InternalVec v\<rparr>"
  by (simp add: plainToSubstrate_def ok_def)

text \<open>
  C2. The claim: encoding an array of booleans, strings and numbers as \<open>BoolVec\<close>
  succeeds and coerces each element. The code: \<open>valueAsBool\<close> takes no argument, so
  \<open>map\<close> makes it test the whole array once per element, and an array is no boolean
  representation. Encoding any array with at least one element throws: the
  unsupported-boolean error, as for \<open>[true]\<close> and \<open>['yes', 0]\<close>, or the \<open>TypeError\<close> of
  the message's construction when the array has no string form. Only the empty array
  is encoded.
\<close>

theorem boolVec_of_nonempty_array_throws:
  "(\<forall>y ys. plainToSubstrate ''BoolVec'' (JArr (y # ys)) =
             Inl (case ToString (JArr (y # ys)) of
                    Inl e \<Rightarrow> e
                  | Inr s \<Rightarrow> UnsupportedBoolean (JArr (y # ys))))
   \<and> plainToSubstrate ''BoolVec'' (JArr [JBool True]) =
       Inl (UnsupportedBoolean (JArr [JBool True]))
   \<and> plainToSubstrate ''BoolVec'' (JArr [JStr ''yes'', JNum 0]) =
       Inl (UnsupportedBoolean (JArr [JStr ''yes'', JNum 0]))
   \<and> plainToSubstrate ''BoolVec'' (JArr []) =
       Inr \<lparr>variant = ''BoolVec'', typeEnum = PV_BoolVec []\<rparr>"
  by (simp add: plainToSubstrate_BoolVec valueAsBoolArr_def valueAsBool_array
      Number_toString_table)



text \<open>A type name outside the fixed set is refused, whatever the value.\<close>

lemma unknown_type_name:
  "T \<notin> set typeNames \<Longrightarrow> plainToSubstrate T v = Inl (UnknownPropertyTypeName T)"
  by (simp add: typeNames_def plainToSubstrate_def)

text \<open>
  A type name of the fixed set other than the two boolean ones accepts every value.
\<close>

lemma unvalidated_type_names_encode:
  "T \<in> set typeNames \<Longrightarrow> T \<noteq> ''Bool'' \<Longrightarrow> T \<noteq> ''BoolVec'' \<Longrightarrow>
   \<exists>pv. plainToSubstrate T v = Inr pv"
  unfolding typeNames_def set_simps
  by (elim insertE emptyE) (simp_all add: plainToSubstrate_def)

section \<open>Properties of the update\<close>


text \<open>
  When the value of a field whose encoding raises has no string form, the line to log
  cannot be built and the whole call raises: here for a field of an unknown type name
  and for a boolean field, each holding the object \<open>{toString: 1}\<close>.
\<close>

lemma update_raises_when_diagnostic_cannot_be_built:
  "fst (toSubstrateUpdate
      (newEntityCodec (\<lambda>s. s)
         \<lparr>properties = [\<lparr>name = ''a'', prop_type = ''Foo''\<rparr>,
                        \<lparr>name = ''b'', prop_type = ''Text''\<rparr>]\<rparr>)
      [(''a'', JObj [(''toString'', JNum 1)]), (''b'', JStr ''hi'')]) = Inl TypeError
   \<and> fst (toSubstrateUpdate
      (newEntityCodec (\<lambda>s. s)
         \<lparr>properties = [\<lparr>name = ''a'', prop_type = ''Bool''\<rparr>,
                        \<lparr>name = ''b'', prop_type = ''Text''\<rparr>]\<rparr>)
      [(''b'', JStr ''hi''), (''a'', JObj [(''toString'', JNum 1)])]) = Inl TypeError"
  by (simp add: toSubstrateUpdate_def Object_keys_def getProp_def newEntityCodec_def Let_def
      propNameToJsFieldStyle_def plainToSubstrate_Bool valueAsBool_object
      plainToSubstrate_scalars unknown_type_name typeNames_def)




section \<open>Properties of the decoder\<close>

lemma substrateToPlain_decodable:
  "decodable x \<longrightarrow> (\<exists>p. substrateToPlain x = Inr p)"
  "decodableList xs \<longrightarrow> (\<exists>ps. substrateToPlainList xs = Inr ps)"
  by (induction x and xs rule: substrateToPlain_substrateToPlainList.induct)
     (auto simp: BN_toNumber_def split: sum.splits)

lemma mapToNumber_safe: "list_all safe xs \<Longrightarrow> mapToNumber xs = Inr xs"
  by (induction xs) (simp_all add: BN_toNumber_def)

text \<open>
  A pair whose index has no name, or the empty name, leaves no trace: the loop gives the
  result it gives without the pair.
\<close>

lemma forEachValue_skip:
  "propIndexToNameMap this (in_class_index p) = None
   \<or> propIndexToNameMap this (in_class_index p) = Some [] \<Longrightarrow>
   forEachValue this (xs @ p # ys) r = forEachValue this (xs @ ys) r"
  by (induction xs arbitrary: r) (auto simp: Let_def split: option.splits sum.splits)

lemma forEachValue_returns:
  "list_all (\<lambda>q. decodable (value q)) vs \<Longrightarrow> \<exists>r'. forEachValue this vs r = Inr r'"
proof (induction vs arbitrary: r)
  case Nil
  then show ?case by simp
next
  case (Cons v vs)
  then obtain p where "substrateToPlain (value v) = Inr p"
    using substrateToPlain_decodable(1)[of "value v"] by auto
  with Cons show ?case by (auto simp: Let_def split: option.splits)
qed

lemma forEachValue_empty_key:
  "forEachValue this vs r = Inr r' \<Longrightarrow> r' [] = r []"
  by (induction vs arbitrary: r)
     (auto simp: Let_def split: option.splits sum.splits if_splits)

lemma forEachValue_dom:
  "forEachValue this vs r = Inr r' \<Longrightarrow> dom r' \<subseteq> dom r \<union> ran (propIndexToNameMap this)"
proof (induction vs arbitrary: r)
  case Nil
  then show ?case by auto
next
  case (Cons v vs)
  show ?case
  proof (cases "propIndexToNameMap this (in_class_index v)")
    case None
    with Cons show ?thesis by (simp add: Let_def)
  next
    case (Some n)
    show ?thesis
    proof (cases "n = []")
      case True
      with Some Cons show ?thesis by (simp add: Let_def)
    next
      case False
      with Some Cons.prems obtain p where
        step: "forEachValue this vs (r(n \<mapsto> p)) = Inr r'"
        by (auto simp: Let_def split: sum.splits)
      have "n \<in> ran (propIndexToNameMap this)"
        using Some by (auto simp: ran_def)
      moreover from Cons.IH[OF step]
      have "dom r' \<subseteq> insert n (dom r) \<union> ran (propIndexToNameMap this)"
        by (auto simp: dom_def split: if_splits)
      ultimately show ?thesis by blast
    qed
  qed
qed

lemma substrateToPlain_plainOf:
  "decodable x \<longrightarrow> substrateToPlain x = Inr (plainOf x)"
  "decodableList xs \<longrightarrow> substrateToPlainList xs = Inr (plainOfList xs)"
  by (induction x and xs rule: substrateToPlain_substrateToPlainList.induct)
     (auto simp: BN_toNumber_def)

lemma forEachValue_other_key:
  "forEachValue this vs r = Inr r' \<Longrightarrow> k \<notin> ran (propIndexToNameMap this) \<Longrightarrow> r' k = r k"
proof (induction vs arbitrary: r)
  case Nil
  then show ?case by simp
next
  case (Cons v vs)
  show ?case
  proof (cases "propIndexToNameMap this (in_class_index v)")
    case None
    with Cons show ?thesis by (simp add: Let_def)
  next
    case (Some n)
    then have "n \<in> ran (propIndexToNameMap this)" by (auto simp: ran_def)
    with Cons.prems have nk: "n \<noteq> k" by auto
    show ?thesis
    proof (cases "n = []")
      case True
      with Some Cons show ?thesis by (simp add: Let_def)
    next
      case False
      with Some Cons.prems obtain p where
        step: "forEachValue this vs (r(n \<mapsto> p)) = Inr r'"
        by (auto simp: Let_def split: sum.splits)
      from Cons.IH[OF step Cons.prems(2)] nk show ?thesis by simp
    qed
  qed
qed

lemma forEachValue_keeps_keys:
  "forEachValue this vs r = Inr r' \<Longrightarrow> dom r \<subseteq> dom r'"
proof (induction vs arbitrary: r)
  case Nil
  then show ?case by simp
next
  case (Cons v vs)
  show ?case
  proof (cases "propIndexToNameMap this (in_class_index v)")
    case None
    with Cons show ?thesis by (simp add: Let_def)
  next
    case (Some n)
    show ?thesis
    proof (cases "n = []")
      case True
      with Some Cons show ?thesis by (simp add: Let_def)
    next
      case False
      with Some Cons.prems obtain p where
        step: "forEachValue this vs (r(n \<mapsto> p)) = Inr r'"
        by (auto simp: Let_def split: sum.splits)
      from Cons.IH[OF step] have "insert n (dom r) \<subseteq> dom r'"
        by (auto simp: dom_def split: if_splits)
      then show ?thesis by blast
    qed
  qed
qed

lemma forEachValue_mapped_key:
  "forEachValue this vs r = Inr r' \<Longrightarrow> q \<in> set vs \<Longrightarrow>
   propIndexToNameMap this (in_class_index q) = Some n \<Longrightarrow> n \<noteq> [] \<Longrightarrow> n \<in> dom r'"
proof (induction vs arbitrary: r)
  case Nil
  then show ?case by simp
next
  case (Cons v vs)
  show ?case
  proof (cases "q = v")
    case True
    with Cons.prems obtain p where
      step: "forEachValue this vs (r(n \<mapsto> p)) = Inr r'"
      by (auto simp: Let_def split: sum.splits)
    from forEachValue_keeps_keys[OF step] have "insert n (dom r) \<subseteq> dom r'"
        by (auto simp: dom_def split: if_splits)
    then show ?thesis by blast
  next
    case False
    with Cons.prems have q: "q \<in> set vs" by simp
    from Cons.prems(1) obtain r1 where step: "forEachValue this vs r1 = Inr r'"
      by (auto simp: Let_def split: option.splits sum.splits if_splits)
    from Cons.IH[OF step q Cons.prems(3) Cons.prems(4)] show ?thesis .
  qed
qed

section \<open>Properties of the constructor\<close>

lemma constructorLoop_index:
  "propIndexToNameMap (constructorLoop cc ps k this) j =
     (if k \<le> j \<and> j < k + length ps then Some (cc (name (ps ! (j - k))))
      else propIndexToNameMap this j)"
proof (induction ps arbitrary: k this)
  case Nil
  then show ?case by auto
next
  case (Cons p ps)
  show ?case
    by (auto simp: Cons.IH Let_def propNameToJsFieldStyle_def nth_Cons' Suc_diff_le)
qed

lemma newEntityCodec_index:
  "propIndexToNameMap (newEntityCodec cc cls) j =
     (if j < length (properties cls) then Some (cc (name (properties cls ! j))) else None)"
  by (simp add: newEntityCodec_def constructorLoop_index)

lemma constructorLoop_name_other:
  "n \<notin> set (map (\<lambda>p. cc (name p)) ps) \<Longrightarrow>
   propNameToMetaMap (constructorLoop cc ps k this) n = propNameToMetaMap this n"
  by (induction ps arbitrary: k this) (auto simp: Let_def propNameToJsFieldStyle_def)

lemma constructorLoop_name:
  "distinct (map (\<lambda>p. cc (name p)) ps) \<Longrightarrow> i < length ps \<Longrightarrow>
   propNameToMetaMap (constructorLoop cc ps k this) (cc (name (ps ! i))) =
     Some \<lparr>index = k + i, type = prop_type (ps ! i)\<rparr>"
proof (induction ps arbitrary: k this i)
  case Nil
  then show ?case by simp
next
  case (Cons p ps)
  show ?case
  proof (cases i)
    case 0
    with Cons.prems show ?thesis
      by (simp add: Let_def propNameToJsFieldStyle_def constructorLoop_name_other)
  next
    case (Suc j)
    with Cons.prems have "j < length ps" "distinct (map (\<lambda>p. cc (name p)) ps)" by auto
    from Cons.IH[OF this(2) this(1)] Suc show ?thesis
      by (simp add: Let_def propNameToJsFieldStyle_def)
  qed
qed

section \<open>The claims about the codec\<close>

text \<open>
  C7. Index stability under construction: when the canonicalized names of the schema's
  properties are pairwise distinct, \<open>inClassIndexOfProp\<close> gives each canonicalized name
  the zero-based position of its property, so the indexes \<open>0\<close> to \<open>N - 1\<close>, each once;
  for every other name it gives nothing.
\<close>

theorem index_stability:
  "distinct (map (\<lambda>p. cc (name p)) (properties cls)) \<Longrightarrow>
   (\<forall>i < length (properties cls).
      fst (inClassIndexOfProp (newEntityCodec cc cls) (cc (name (properties cls ! i)))) =
        Some i)
   \<and> (\<forall>n. n \<notin> set (map (\<lambda>p. cc (name p)) (properties cls)) \<longrightarrow>
        fst (inClassIndexOfProp (newEntityCodec cc cls) n) = None)"
  by (simp add: inClassIndexOfProp_def newEntityCodec_def constructorLoop_name
      constructorLoop_name_other)

theorem index_stability_witness:
  "distinct (map (\<lambda>p. toLowerCase (name p))
      [\<lparr>name = ''Title'', prop_type = ''Text''\<rparr>, \<lparr>name = ''Year'', prop_type = ''Uint16''\<rparr>])
   \<and> fst (inClassIndexOfProp
        (newEntityCodec toLowerCase
           \<lparr>properties = [\<lparr>name = ''Title'', prop_type = ''Text''\<rparr>,
                          \<lparr>name = ''Year'', prop_type = ''Uint16''\<rparr>]\<rparr>) ''title'') = Some 0
   \<and> fst (inClassIndexOfProp
        (newEntityCodec toLowerCase
           \<lparr>properties = [\<lparr>name = ''Title'', prop_type = ''Text''\<rparr>,
                          \<lparr>name = ''Year'', prop_type = ''Uint16''\<rparr>]\<rparr>) ''year'') = Some 1
   \<and> fst (inClassIndexOfProp
        (newEntityCodec toLowerCase
           \<lparr>properties = [\<lparr>name = ''Title'', prop_type = ''Text''\<rparr>,
                          \<lparr>name = ''Year'', prop_type = ''Uint16''\<rparr>]\<rparr>) ''Year'') = None"
proof -
  let ?cls = "\<lparr>properties = [\<lparr>name = ''Title'', prop_type = ''Text''\<rparr>,
                             \<lparr>name = ''Year'', prop_type = ''Uint16''\<rparr>]\<rparr>"
  have names: "map (\<lambda>p. toLowerCase (name p)) (properties ?cls) = [''title'', ''year'']"
    by (simp add: toLowerCase_def lowerChar_def)
  have d: "distinct (map (\<lambda>p. toLowerCase (name p)) (properties ?cls))"
    by (simp only: names) simp
  note st = index_stability[OF d]
  have l0: "0 < length (properties ?cls)" and l1: "1 < length (properties ?cls)"
    by simp_all
  from st l0 have
    "fst (inClassIndexOfProp (newEntityCodec toLowerCase ?cls)
       (toLowerCase (name (properties ?cls ! 0)))) = Some 0"
    by blast
  moreover from st l1 have
    "fst (inClassIndexOfProp (newEntityCodec toLowerCase ?cls)
       (toLowerCase (name (properties ?cls ! 1)))) = Some 1"
    by blast
  moreover have "''Year'' \<notin> set (map (\<lambda>p. toLowerCase (name p)) (properties ?cls))"
    by (simp only: names) simp
  with st have "fst (inClassIndexOfProp (newEntityCodec toLowerCase ?cls) ''Year'') = None"
    by blast
  ultimately show ?thesis
    using d by (simp add: toLowerCase_def lowerChar_def)
qed

text \<open>
  C8. No method writes to the maps: \<open>inClassIndexOfProp\<close>, \<open>toPlainObject\<close>,
  \<open>toPlainObjects\<close> and \<open>toSubstrateUpdate\<close> each leave the instance, and so its
  \<open>propNameToMetaMap\<close> and \<open>propIndexToNameMap\<close>, as it was.
\<close>

lemma toPlainObject_this: "snd (toPlainObject this e) = this"
  by (simp add: toPlainObject_def Let_def split: sum.splits)

lemma toPlainObjects_this: "snd (toPlainObjects this es) = this"
proof (induction es)
  case Nil
  then show ?case by simp
next
  case (Cons e es)
  have "toPlainObject this e = (fst (toPlainObject this e), this)"
    using toPlainObject_this[of this e] by (cases "toPlainObject this e") simp
  with Cons show ?case
    by (cases "fst (toPlainObject this e)")
       (auto split: prod.splits sum.splits)
qed

theorem maps_unchanged_by_methods:
  "snd (inClassIndexOfProp this n) = this
   \<and> snd (toPlainObject this e) = this
   \<and> snd (toPlainObjects this es) = this
   \<and> snd (toSubstrateUpdate this u) = this
   \<and> propNameToMetaMap (snd (toPlainObjects this es)) = propNameToMetaMap this
   \<and> propIndexToNameMap (snd (toPlainObjects this es)) = propIndexToNameMap this"
  by (simp add: inClassIndexOfProp_def toPlainObject_this toPlainObjects_this
      toSubstrateUpdate_def split: option.splits)

text \<open>
  C9. Registration is never fatal: no exception reaches the caller of
  \<open>registerVersionedStorePermissionsTypes\<close>, whatever the registry's \<open>register\<close> does;
  when \<open>register\<close> throws, the exception is logged, and otherwise nothing is.
\<close>

theorem registration_never_fatal:
  "fst (registerVersionedStorePermissionsTypes register registry logged) = None
   \<and> snd (snd (registerVersionedStorePermissionsTypes register registry logged)) =
       (case fst (register registry) of None \<Rightarrow> logged | Some err \<Rightarrow> logged @ [err])"
  by (simp add: registerVersionedStorePermissionsTypes_def split: prod.splits option.splits)

text \<open>
  The result of \<open>toPlainObject\<close> in terms of the loop: the metadata are converted first,
  and the loop starts from the object that holds them.
\<close>

lemma toPlainObject_loop:
  "decodableMeta e \<Longrightarrow>
   fst (toPlainObject this e) =
     forEachValue this (entity_values e)
       [''classId'' \<mapsto> JNum (class_id e),
        ''inClassSchemaIndexes'' \<mapsto> JArr (map JNum (in_class_schema_indexes e)),
        ''id'' \<mapsto> JNum (id' e)]"
  by (simp add: toPlainObject_def decodableMeta_def BN_toNumber_def mapToNumber_safe Let_def)

lemma toPlainObject_Inr:
  "fst (toPlainObject this e) = Inr r \<Longrightarrow>
   \<exists>r0. r0 [] = None \<and> forEachValue this (entity_values e) r0 = Inr r"
proof -
  assume "fst (toPlainObject this e) = Inr r"
  then obtain a b c where
    "forEachValue this (entity_values e)
       [''classId'' \<mapsto> JNum a, ''inClassSchemaIndexes'' \<mapsto> JArr (map JNum b),
        ''id'' \<mapsto> JNum c] = Inr r"
    by (auto simp: toPlainObject_def Let_def split: sum.splits)
  moreover have
    "[''classId'' \<mapsto> JNum a, ''inClassSchemaIndexes'' \<mapsto> JArr (map JNum b),
      ''id'' \<mapsto> JNum c] [] = None"
    by simp
  ultimately show ?thesis by blast
qed

lemma toPlainObject_returns:
  "decodableEntity e \<Longrightarrow>
   \<exists>r. fst (toPlainObject this e) = Inr r
       \<and> dom r \<subseteq> {''classId'', ''inClassSchemaIndexes'', ''id''}
                  \<union> ran (propIndexToNameMap this)
       \<and> (''classId'' \<notin> ran (propIndexToNameMap this) \<longrightarrow>
            r ''classId'' = Some (JNum (class_id e)))
       \<and> (''inClassSchemaIndexes'' \<notin> ran (propIndexToNameMap this) \<longrightarrow>
            r ''inClassSchemaIndexes'' = Some (JArr (map JNum (in_class_schema_indexes e))))
       \<and> (''id'' \<notin> ran (propIndexToNameMap this) \<longrightarrow> r ''id'' = Some (JNum (id' e)))
       \<and> (\<forall>q \<in> set (entity_values e). \<forall>n.
             propIndexToNameMap this (in_class_index q) = Some n \<and> n \<noteq> [] \<longrightarrow> n \<in> dom r)"
proof -
  assume d: "decodableEntity e"
  let ?r0 = "[''classId'' \<mapsto> JNum (class_id e),
        ''inClassSchemaIndexes'' \<mapsto> JArr (map JNum (in_class_schema_indexes e)),
        ''id'' \<mapsto> JNum (id' e)]"
  from d have m: "decodableMeta e"
    and vs: "list_all (\<lambda>q. decodable (value q)) (entity_values e)"
    by (simp_all add: decodableEntity_def)
  from forEachValue_returns[OF vs] obtain r where
    r: "forEachValue this (entity_values e) ?r0 = Inr r"
    by blast
  from forEachValue_dom[OF r] have keys:
    "dom r \<subseteq> {''classId'', ''inClassSchemaIndexes'', ''id''} \<union> ran (propIndexToNameMap this)"
    by auto
  have meta: "k \<notin> ran (propIndexToNameMap this) \<Longrightarrow> r k = ?r0 k" for k
    using forEachValue_other_key[OF r] by blast
  have mapped: "\<forall>q \<in> set (entity_values e). \<forall>n.
      propIndexToNameMap this (in_class_index q) = Some n \<and> n \<noteq> [] \<longrightarrow> n \<in> dom r"
    using forEachValue_mapped_key[OF r] by blast
  from r m have "fst (toPlainObject this e) = Inr r"
    by (simp add: toPlainObject_loop)
  with keys mapped meta[of "''classId''"] meta[of "''inClassSchemaIndexes''"] meta[of "''id''"]
  show ?thesis by simp
qed

lemma toPlainObjects_returns:
  "list_all decodableEntity es \<Longrightarrow>
   \<exists>rs. fst (toPlainObjects this es) = Inr rs \<and> length rs = length es"
proof (induction es)
  case Nil
  then show ?case by simp
next
  case (Cons e es)
  then obtain rs where rs: "fst (toPlainObjects this es) = Inr rs" "length rs = length es"
    by auto
  from Cons.prems obtain r where r: "fst (toPlainObject this e) = Inr r"
    using toPlainObject_returns[of e this] by auto
  have p1: "toPlainObject this e = (Inr r, this)"
    using r toPlainObject_this[of this e] by (cases "toPlainObject this e") simp
  have p2: "toPlainObjects this es = (Inr rs, this)"
    using rs toPlainObjects_this[of this es] by (cases "toPlainObjects this es") simp
  show ?case by (simp add: p1 p2 rs)
qed

text \<open>
  C5, as stated, fails in that \<open>toPlainObject\<close> does not succeed on every such record:
  \<open>toNumber\<close> raises for a number that needs more than 53 bits. Here the record holds
  a pair of unknown index 5 and has the identifier \<open>2^53\<close>.
\<close>

theorem unknown_index_with_large_id_counterexample:
  "fst (toPlainObject
     (newEntityCodec (\<lambda>s. s) \<lparr>properties = [\<lparr>name = ''title'', prop_type = ''Text''\<rparr>]\<rparr>)
     \<lparr>class_id = 1, in_class_schema_indexes = [0], id' = 9007199254740992,
      entity_values = [\<lparr>in_class_index = 0, value = CText ''x''\<rparr>,
                       \<lparr>in_class_index = 5, value = CBN 3\<rparr>]\<rparr>) = Inl BNAssertion"
  by (simp add: toPlainObject_def BN_toNumber_def safe_def)

text \<open>
  C5, amended. An unknown index is dropped: a pair of the raw record whose index has no
  entry in the index-to-name map changes nothing. \<open>toPlainObject\<close> gives for the record
  what it gives for the record without the pair, the same plain object or the same
  exception, so no key is added for the index and every other field is as it would be
  without it; and it returns a plain object when the record without the pair is
  decodable (its metadata and big numbers need at most 53 bits, its values are
  present), whatever the value of the unknown pair.
\<close>

theorem unknown_index_dropped:
  "propIndexToNameMap this (in_class_index p) = None \<Longrightarrow>
   fst (toPlainObject this (e\<lparr>entity_values := xs @ p # ys\<rparr>)) =
     fst (toPlainObject this (e\<lparr>entity_values := xs @ ys\<rparr>))
   \<and> (decodableEntity (e\<lparr>entity_values := xs @ ys\<rparr>) \<longrightarrow>
        (\<exists>r. fst (toPlainObject this (e\<lparr>entity_values := xs @ p # ys\<rparr>)) = Inr r))"
proof -
  assume unknown: "propIndexToNameMap this (in_class_index p) = None"
  have same: "forEachValue this (xs @ p # ys) r = forEachValue this (xs @ ys) r" for r
    using unknown by (simp add: forEachValue_skip)
  have eq: "fst (toPlainObject this (e\<lparr>entity_values := xs @ p # ys\<rparr>)) =
     fst (toPlainObject this (e\<lparr>entity_values := xs @ ys\<rparr>))"
    by (simp add: toPlainObject_def Let_def same split: sum.splits)
  show ?thesis
    using toPlainObject_returns[of "e\<lparr>entity_values := xs @ ys\<rparr>" this]
    by (auto simp: eq)
qed

theorem unknown_index_dropped_witness:
  "decodableEntity
     \<lparr>class_id = 1, in_class_schema_indexes = [0], id' = 7,
      entity_values = [\<lparr>in_class_index = 0, value = CText ''x''\<rparr>]\<rparr>
   \<and> fst (toPlainObject
     (newEntityCodec (\<lambda>s. s) \<lparr>properties = [\<lparr>name = ''title'', prop_type = ''Text''\<rparr>]\<rparr>)
     \<lparr>class_id = 1, in_class_schema_indexes = [0], id' = 7,
      entity_values = [\<lparr>in_class_index = 0, value = CText ''x''\<rparr>,
                       \<lparr>in_class_index = 5, value = CBN 3\<rparr>]\<rparr>) =
   fst (toPlainObject
     (newEntityCodec (\<lambda>s. s) \<lparr>properties = [\<lparr>name = ''title'', prop_type = ''Text''\<rparr>]\<rparr>)
     \<lparr>class_id = 1, in_class_schema_indexes = [0], id' = 7,
      entity_values = [\<lparr>in_class_index = 0, value = CText ''x''\<rparr>]\<rparr>)
   \<and> (\<exists>r. fst (toPlainObject
     (newEntityCodec (\<lambda>s. s) \<lparr>properties = [\<lparr>name = ''title'', prop_type = ''Text''\<rparr>]\<rparr>)
     \<lparr>class_id = 1, in_class_schema_indexes = [0], id' = 7,
      entity_values = [\<lparr>in_class_index = 0, value = CText ''x''\<rparr>,
                       \<lparr>in_class_index = 5, value = CBN 3\<rparr>]\<rparr>) = Inr r)"
  using unknown_index_dropped
    [where this = "newEntityCodec (\<lambda>s. s)
         \<lparr>properties = [\<lparr>name = ''title'', prop_type = ''Text''\<rparr>]\<rparr>"
       and p = "\<lparr>in_class_index = 5, value = CBN 3\<rparr>"
       and xs = "[\<lparr>in_class_index = 0, value = CText ''x''\<rparr>]" and ys = "[]"
       and e = "\<lparr>class_id = 1, in_class_schema_indexes = [0], id' = 7,
                 entity_values = []\<rparr>"]
  by (simp add: newEntityCodec_index decodableEntity_def decodableMeta_def safe_def
      toPlainObject_def Let_def BN_toNumber_def)

text \<open>
  C10. A property whose name canonicalizes to the empty string is never decoded: a
  value that the raw record supplies at the property's index changes nothing, because
  the guard \<open>if (propName)\<close> is false for the empty string; and no result of
  \<open>toPlainObject\<close> has the empty string as a key.
\<close>

theorem empty_field_name_omitted:
  "i < length (properties cls) \<Longrightarrow> cc (name (properties cls ! i)) = [] \<Longrightarrow>
   fst (toPlainObject (newEntityCodec cc cls)
          (e\<lparr>entity_values := xs @ \<lparr>in_class_index = i, value = x\<rparr> # ys\<rparr>)) =
     fst (toPlainObject (newEntityCodec cc cls) (e\<lparr>entity_values := xs @ ys\<rparr>))
   \<and> (\<forall>r. fst (toPlainObject (newEntityCodec cc cls) e') = Inr r \<longrightarrow> r [] = None)"
proof -
  assume i: "i < length (properties cls)" and empty: "cc (name (properties cls ! i)) = []"
  let ?c = "newEntityCodec cc cls"
  let ?p = "\<lparr>in_class_index = i, value = x\<rparr>"
  have "propIndexToNameMap ?c (in_class_index ?p) = Some []"
    using i empty by (simp add: newEntityCodec_index)
  then have same: "forEachValue ?c (xs @ ?p # ys) r = forEachValue ?c (xs @ ys) r" for r
    by (simp add: forEachValue_skip)
  have "r [] = None" if "fst (toPlainObject ?c e') = Inr r" for r
  proof -
    from toPlainObject_Inr[OF that] obtain r0 where
      "r0 [] = None" "forEachValue ?c (entity_values e') r0 = Inr r"
      by blast
    then show ?thesis
      using forEachValue_empty_key[of ?c "entity_values e'" r0 r] by simp
  qed
  then show ?thesis
    by (simp add: toPlainObject_def Let_def same split: sum.splits)
qed

theorem empty_field_name_omitted_witness:
  "fst (toPlainObject
     (newEntityCodec (filter (\<lambda>c. c \<noteq> CHR ''-''))
        \<lparr>properties = [\<lparr>name = ''title'', prop_type = ''Text''\<rparr>,
                       \<lparr>name = ''--'', prop_type = ''Bool''\<rparr>]\<rparr>)
     \<lparr>class_id = 1, in_class_schema_indexes = [0], id' = 7,
      entity_values = [\<lparr>in_class_index = 0, value = CText ''x''\<rparr>,
                       \<lparr>in_class_index = 1, value = CBool True\<rparr>]\<rparr>) =
   fst (toPlainObject
     (newEntityCodec (filter (\<lambda>c. c \<noteq> CHR ''-''))
        \<lparr>properties = [\<lparr>name = ''title'', prop_type = ''Text''\<rparr>,
                       \<lparr>name = ''--'', prop_type = ''Bool''\<rparr>]\<rparr>)
     \<lparr>class_id = 1, in_class_schema_indexes = [0], id' = 7,
      entity_values = [\<lparr>in_class_index = 0, value = CText ''x''\<rparr>]\<rparr>)
   \<and> (\<exists>r. fst (toPlainObject
     (newEntityCodec (filter (\<lambda>c. c \<noteq> CHR ''-''))
        \<lparr>properties = [\<lparr>name = ''title'', prop_type = ''Text''\<rparr>,
                       \<lparr>name = ''--'', prop_type = ''Bool''\<rparr>]\<rparr>)
     \<lparr>class_id = 1, in_class_schema_indexes = [0], id' = 7,
      entity_values = [\<lparr>in_class_index = 0, value = CText ''x''\<rparr>,
                       \<lparr>in_class_index = 1, value = CBool True\<rparr>]\<rparr>) = Inr r
        \<and> r [] = None \<and> r ''title'' = Some (JStr ''x''))"
proof -
  let ?c = "newEntityCodec (filter (\<lambda>c. c \<noteq> CHR ''-''))
        \<lparr>properties = [\<lparr>name = ''title'', prop_type = ''Text''\<rparr>,
                       \<lparr>name = ''--'', prop_type = ''Bool''\<rparr>]\<rparr>"
  let ?e = "\<lparr>class_id = 1, in_class_schema_indexes = [0], id' = 7,
      entity_values = [\<lparr>in_class_index = 0, value = CText ''x''\<rparr>,
                       \<lparr>in_class_index = 1, value = CBool True\<rparr>]\<rparr>"
  note omitted = empty_field_name_omitted
    [where cc = "filter (\<lambda>c. c \<noteq> CHR ''-'')"
       and cls = "\<lparr>properties = [\<lparr>name = ''title'', prop_type = ''Text''\<rparr>,
                                \<lparr>name = ''--'', prop_type = ''Bool''\<rparr>]\<rparr>"
       and i = 1 and x = "CBool True"
       and xs = "[\<lparr>in_class_index = 0, value = CText ''x''\<rparr>]" and ys = "[]"
       and e = "\<lparr>class_id = 1, in_class_schema_indexes = [0], id' = 7,
                 entity_values = []\<rparr>"
       and e' = ?e]
  have run: "fst (toPlainObject ?c ?e) =
      Inr ([''classId'' \<mapsto> JNum 1, ''inClassSchemaIndexes'' \<mapsto> JArr [JNum 0],
            ''id'' \<mapsto> JNum 7, ''title'' \<mapsto> JStr ''x''])"
    by (simp add: toPlainObject_def Let_def newEntityCodec_index BN_toNumber_def safe_def)
  from omitted run show ?thesis
    by simp
qed

text \<open>
  C6, as stated, fails: decoding raises when a number needs more than 53 bits, the
  failed assertion of \<open>toNumber\<close> reaching the caller of \<open>toPlainObject\<close> and of
  \<open>toPlainObjects\<close>. Here the value \<open>2^53\<close> stands at a mapped index, and in a second
  record the class identifier is \<open>2^53\<close>.
\<close>

theorem decode_of_large_number_counterexample:
  "substrateToPlain (CBN 9007199254740992) = Inl BNAssertion
   \<and> fst (toPlainObject
       (newEntityCodec (\<lambda>s. s) \<lparr>properties = [\<lparr>name = ''views'', prop_type = ''Uint64''\<rparr>]\<rparr>)
       \<lparr>class_id = 1, in_class_schema_indexes = [0], id' = 7,
        entity_values = [\<lparr>in_class_index = 0, value = CBN 9007199254740992\<rparr>]\<rparr>) =
       Inl BNAssertion
   \<and> fst (toPlainObjects
       (newEntityCodec (\<lambda>s. s) \<lparr>properties = [\<lparr>name = ''views'', prop_type = ''Uint64''\<rparr>]\<rparr>)
       [\<lparr>class_id = 9007199254740992, in_class_schema_indexes = [0], id' = 7,
         entity_values = []\<rparr>]) = Inl BNAssertion"
  by (simp add: toPlainObject_def Let_def newEntityCodec_index BN_toNumber_def safe_def)

text \<open>
  C6, amended. Decoding a decodable record never raises: when the three metadata
  fields and every big number among the values need at most 53 bits and every value is
  present, \<open>toPlainObject\<close> returns a plain object. Its keys are metadata keys and
  names of the index-to-name map; a metadata field that no property name hides holds the
  number of the record; every pair whose index has a non-empty name gives a key, a pair
  of unmapped index being dropped. \<open>toPlainObjects\<close> returns one plain object per
  record; every \<open>substrateToPlain\<close> of a decodable value returns what the
  specification says it decodes to, a \<open>null\<close> value decoding to \<open>undefined\<close>.
\<close>

theorem decode_of_decodable_record_returns:
  "(decodableEntity e \<longrightarrow>
      (\<exists>r. fst (toPlainObject this e) = Inr r
          \<and> dom r \<subseteq> {''classId'', ''inClassSchemaIndexes'', ''id''}
                     \<union> ran (propIndexToNameMap this)
          \<and> (''classId'' \<notin> ran (propIndexToNameMap this) \<longrightarrow>
               r ''classId'' = Some (JNum (class_id e)))
          \<and> (''inClassSchemaIndexes'' \<notin> ran (propIndexToNameMap this) \<longrightarrow>
               r ''inClassSchemaIndexes'' =
                 Some (JArr (map JNum (in_class_schema_indexes e))))
          \<and> (''id'' \<notin> ran (propIndexToNameMap this) \<longrightarrow> r ''id'' = Some (JNum (id' e)))
          \<and> (\<forall>q \<in> set (entity_values e). \<forall>n.
                propIndexToNameMap this (in_class_index q) = Some n \<and> n \<noteq> []
                \<longrightarrow> n \<in> dom r)))
   \<and> (list_all decodableEntity es \<longrightarrow>
        (\<exists>rs. fst (toPlainObjects this es) = Inr rs \<and> length rs = length es))
   \<and> (decodable x \<longrightarrow> substrateToPlain x = Inr (plainOf x))
   \<and> substrateToPlain CNull = Inr JUndefined"
  using toPlainObject_returns[of e this] toPlainObjects_returns[of es this]
    substrateToPlain_plainOf(1)[of x]
  by simp

theorem decode_of_decodable_record_returns_witness:
  "decodableEntity
     \<lparr>class_id = 1, in_class_schema_indexes = [0], id' = 9007199254740991,
      entity_values = [\<lparr>in_class_index = 0, value = CBN 9007199254740991\<rparr>,
                       \<lparr>in_class_index = 1, value = CVec [CText ''a'', CNull]\<rparr>,
                       \<lparr>in_class_index = 9, value = CBool True\<rparr>]\<rparr>
   \<and> (\<exists>r. fst (toPlainObject
       (newEntityCodec (\<lambda>s. s)
          \<lparr>properties = [\<lparr>name = ''views'', prop_type = ''Uint64''\<rparr>,
                         \<lparr>name = ''tags'', prop_type = ''TextVec''\<rparr>]\<rparr>)
       \<lparr>class_id = 1, in_class_schema_indexes = [0], id' = 9007199254740991,
        entity_values = [\<lparr>in_class_index = 0, value = CBN 9007199254740991\<rparr>,
                         \<lparr>in_class_index = 1, value = CVec [CText ''a'', CNull]\<rparr>,
                         \<lparr>in_class_index = 9, value = CBool True\<rparr>]\<rparr>) = Inr r
        \<and> r ''id'' = Some (JNum 9007199254740991)
        \<and> r ''classId'' = Some (JNum 1)
        \<and> r ''views'' = Some (JNum 9007199254740991)
        \<and> r ''tags'' = Some (JArr [JStr ''a'', JUndefined]))
   \<and> (\<exists>rs. fst (toPlainObjects
       (newEntityCodec (\<lambda>s. s)
          \<lparr>properties = [\<lparr>name = ''views'', prop_type = ''Uint64''\<rparr>,
                         \<lparr>name = ''tags'', prop_type = ''TextVec''\<rparr>]\<rparr>)
       [\<lparr>class_id = 1, in_class_schema_indexes = [0], id' = 9007199254740991,
         entity_values = [\<lparr>in_class_index = 0, value = CBN 9007199254740991\<rparr>,
                          \<lparr>in_class_index = 1, value = CVec [CText ''a'', CNull]\<rparr>,
                          \<lparr>in_class_index = 9, value = CBool True\<rparr>]\<rparr>]) = Inr rs
        \<and> length rs = 1)
   \<and> substrateToPlain (CVec [CText ''a'', CNull]) = Inr (JArr [JStr ''a'', JUndefined])"
proof -
  let ?c = "newEntityCodec (\<lambda>s. s)
          \<lparr>properties = [\<lparr>name = ''views'', prop_type = ''Uint64''\<rparr>,
                         \<lparr>name = ''tags'', prop_type = ''TextVec''\<rparr>]\<rparr>"
  let ?e = "\<lparr>class_id = 1, in_class_schema_indexes = [0], id' = 9007199254740991,
      entity_values = [\<lparr>in_class_index = 0, value = CBN 9007199254740991\<rparr>,
                       \<lparr>in_class_index = 1, value = CVec [CText ''a'', CNull]\<rparr>,
                       \<lparr>in_class_index = 9, value = CBool True\<rparr>]\<rparr>"
  have d: "decodableEntity ?e"
    by (simp add: decodableEntity_def decodableMeta_def safe_def)
  have dx: "decodable (CVec [CText ''a'', CNull])"
    by simp
  have run: "fst (toPlainObject ?c ?e) =
      Inr ([''classId'' \<mapsto> JNum 1, ''inClassSchemaIndexes'' \<mapsto> JArr [JNum 0],
            ''id'' \<mapsto> JNum 9007199254740991, ''views'' \<mapsto> JNum 9007199254740991,
            ''tags'' \<mapsto> JArr [JStr ''a'', JUndefined]])"
    by (simp add: toPlainObject_def Let_def newEntityCodec_index BN_toNumber_def safe_def)
  from decode_of_decodable_record_returns
    [where e = ?e and es = "[?e]" and x = "CVec [CText ''a'', CNull]" and this = ?c]
    d dx run
  show ?thesis
    by auto
qed

section \<open>The round trip of scalar values\<close>

lemma integerRange_Some:
  "integerRange T = Some r \<Longrightarrow>
   T \<in> {''Uint16'', ''Uint32'', ''Uint64'', ''Int16'', ''Int32'', ''Int64''}"
  by (simp add: integerRange_def split: if_splits)

lemma integerRange_safe:
  "integerRange T = Some r \<Longrightarrow> fst r \<le> n \<Longrightarrow> n \<le> snd r \<Longrightarrow> safe n"
  by (auto simp: integerRange_def safe_def split: if_splits)

lemma plainToSubstrate_Bool_of_boolean:
  "plainToSubstrate ''Bool'' (JBool b) = Inr (ok ''Bool'' (PV_Bool b))"
  by (simp add: plainToSubstrate_def valueAsBool_def)

lemma substrateToPlain_CBN:
  "map_option substrateToPlain (map_option CBN m) =
     map_option (\<lambda>n. substrateToPlain (CBN n)) m"
  by (cases m) simp_all

lemma roundTrip_integer:
  "T \<in> {''Uint16'', ''Uint32'', ''Uint64'', ''Int16'', ''Int32'', ''Int64''} \<Longrightarrow>
   roundTrip T v = map_option (\<lambda>n. substrateToPlain (CBN n)) (numericValue v)"
  unfolding roundTrip_def
  by (elim insertE emptyE)
     (simp_all only: plainToSubstrate_scalars ok_def sum.case PropertyValue.simps rawOf.simps
        substrateToPlain_CBN)

lemma roundTrip_Bool: "roundTrip ''Bool'' (JBool b) = Some (Inr (JBool b))"
  by (simp add: roundTrip_def plainToSubstrate_Bool_of_boolean ok_def)

lemma roundTrip_Text: "roundTrip ''Text'' (JStr s) = Some (Inr (JStr s))"
  by (simp add: roundTrip_def plainToSubstrate_scalars ok_def textOf_def)

lemma roundTrip_Internal: "roundTrip ''Internal'' (JStr s) = Some (Inr (JStr s))"
  by (simp add: roundTrip_def plainToSubstrate_scalars ok_def textOf_def)

lemma roundTrip_None: "roundTrip ''None'' v = Some (Inr (JStr []))"
  by (simp add: roundTrip_def plainToSubstrate_scalars ok_def)

text \<open>
  C1, as stated, fails for the type name \<open>None\<close>: encoding discards the value, and
  decoding the none object gives its string form, so that an absent value or \<open>null\<close>
  does not come back.
\<close>

theorem none_round_trip_counterexample:
  "roundTrip ''None'' JUndefined \<noteq> Some (Inr JUndefined)
   \<and> roundTrip ''None'' JNull \<noteq> Some (Inr JNull)"
  by (simp add: roundTrip_None)

text \<open>
  C1, amended. For the type names \<open>Bool\<close>, \<open>Uint16\<close>, \<open>Uint32\<close>, \<open>Uint64\<close>, \<open>Int16\<close>,
  \<open>Int32\<close>, \<open>Int64\<close>, \<open>Text\<close> and \<open>Internal\<close> and every representative plain value of
  the type (a boolean; a number or numeric string in the range of the integer type and
  in the safe range; a string), decoding the codec value produced by encoding the
  value gives a value equal to it under the type's equality: the same boolean, the
  same number, the same string. For \<open>None\<close>, whatever the value, the round trip gives
  a string, the string form of the none object.
\<close>

theorem scalar_round_trip:
  "(representative T v \<longrightarrow> (\<exists>w. roundTrip T v = Some (Inr w) \<and> plainEq T w v))
   \<and> (\<exists>s. roundTrip ''None'' u = Some (Inr (JStr s)))"
proof (intro conjI impI)
  show "\<exists>s. roundTrip ''None'' u = Some (Inr (JStr s))"
    by (simp add: roundTrip_None)
next
  assume rep: "representative T v"
  consider (b) "T = ''Bool''" | (t) "T = ''Text''" | (i) "T = ''Internal''"
    | (n) "T \<noteq> ''Bool''" "T \<noteq> ''Text''" "T \<noteq> ''Internal''"
    by blast
  then show "\<exists>w. roundTrip T v = Some (Inr w) \<and> plainEq T w v"
  proof cases
    case b
    with rep obtain x where "v = JBool x"
      by (auto simp: representative_def isBool_def split: js.splits)
    with b show ?thesis by (simp add: roundTrip_Bool plainEq_def isBool_def)
  next
    case t
    with rep obtain s where "v = JStr s"
      by (auto simp: representative_def isStr_def split: js.splits)
    with t show ?thesis by (simp add: roundTrip_Text plainEq_def isStr_def)
  next
    case i
    with rep obtain s where "v = JStr s"
      by (auto simp: representative_def isStr_def split: js.splits)
    with i show ?thesis by (simp add: roundTrip_Internal plainEq_def isStr_def)
  next
    case n
    with rep obtain r k where r: "integerRange T = Some r" and k: "numericValue v = Some k"
      and bounds: "fst r \<le> k" "k \<le> snd r"
      by (auto simp: representative_def inRange_def split: option.splits)
    from integerRange_safe[OF r bounds] have "substrateToPlain (CBN k) = Inr (JNum k)"
      by (simp add: BN_toNumber_def)
    with integerRange_Some[OF r] have "roundTrip T v = Some (Inr (JNum k))"
      by (simp only: roundTrip_integer k option.map)
    with n k show ?thesis by (simp add: plainEq_def numericValue_def)
  qed
qed

theorem scalar_round_trip_witness:
  "representative ''Uint16'' (JStr ''65535'')
   \<and> (\<exists>w. roundTrip ''Uint16'' (JStr ''65535'') = Some (Inr w)
          \<and> plainEq ''Uint16'' w (JStr ''65535''))"
  using scalar_round_trip[of "''Uint16''" "JStr ''65535''"]
  by (simp add: representative_def integerRange_def inRange_def numericValue_def
      parseDecimal_def digitValue_def)

end
